theory Spec2Isabelle
  imports Main
begin

section \<open>The Helm wrapper of pkg/executables/helm.go\<close>

text \<open>
  The wrapper assembles the argument list of one \<^verbatim>\<open>helm\<close> invocation per operation and
  hands it, with the instance's environment and an optional standard-input payload, to an
  external-command runner. Go strings and byte slices are \<^typ>\<open>string\<close>; the \<^verbatim>\<open>context\<close>
  argument and the calls to the logger have no influence on the argument lists or the results
  and are left out.
\<close>

subsection \<open>Errors\<close>

text \<open>
  A Go \<^verbatim>\<open>error\<close> value: either an error that only carries a message
  (\<^verbatim>\<open>fmt.Errorf\<close> with \<^verbatim>\<open>%v\<close>, or whatever the runner returned),
  or the wrapping error that \<^verbatim>\<open>fmt.Errorf\<close> builds for \<^verbatim>\<open>%w\<close>, which keeps its
  formatted message and the wrapped cause. A \<^verbatim>\<open>nil\<close> error is \<^const>\<open>None\<close> at
  the option type over errors.
\<close>

datatype error = ErrorString string | WrapError string error

fun ErrorMsg :: "error \<Rightarrow> string" where
  "ErrorMsg (ErrorString msg) = msg"
| "ErrorMsg (WrapError msg cause) = msg"

fun Unwrap :: "error \<Rightarrow> error option" where
  "Unwrap (ErrorString msg) = None"
| "Unwrap (WrapError msg cause) = Some cause"

subsection \<open>The external-command runner\<close>

text \<open>
  Modelled from the spec: the \<^verbatim>\<open>Executable\<close> interface and its \<^verbatim>\<open>Command\<close> builder
  (\<^verbatim>\<open>Command\<close>, \<^verbatim>\<open>WithStdIn\<close>, \<^verbatim>\<open>WithEnvVars\<close>, \<^verbatim>\<open>Run\<close>) are declared outside
  helm.go. The spec describes the runner as: given a program name and ordered argument list
  plus optional standard-input bytes and environment mapping, it executes a process and
  returns the captured standard output or an error. A command is the record of what the
  builder collected; the runner is a parameter of the instance, a function from the command
  to the pair (output buffer, error) that Go's \<^verbatim>\<open>Run\<close> returns.
\<close>

record command =
  args :: "string list"
  stdIn :: "string option"
  envVars :: "string \<rightharpoonup> string"

type_synonym Executable = "command \<Rightarrow> string \<times> error option"

definition Command :: "string list \<Rightarrow> command" where
  "Command params = \<lparr>args = params, stdIn = None, envVars = Map.empty\<rparr>"

definition WithStdIn :: "string \<Rightarrow> command \<Rightarrow> command" where
  "WithStdIn bytes c = c\<lparr>stdIn := Some bytes\<rparr>"

definition WithEnvVars :: "(string \<rightharpoonup> string) \<Rightarrow> command \<Rightarrow> command" where
  "WithEnvVars vars c = c\<lparr>envVars := vars\<rparr>"

subsection \<open>The registry mirror\<close>

text \<open>
  Modelled from the spec: package \<^verbatim>\<open>registrymirror\<close> is not part of the sources at hand.
  The spec describes the mirror as an opaque rewrite, a pure function from an original
  reference string to a rewritten reference string, and says that the reference stays the
  original one when no mirror is configured. The field of the instance is a pointer, so the
  unconfigured mirror is \<^const>\<open>None\<close>.
\<close>

type_synonym RegistryMirror = "string \<Rightarrow> string"

definition ReplaceRegistry :: "RegistryMirror option \<Rightarrow> string \<Rightarrow> string" where
  "ReplaceRegistry r originalURL =
     (case r of None \<Rightarrow> originalURL | Some rewrite \<Rightarrow> rewrite originalURL)"

subsection \<open>The instance and its options\<close>

definition helmPath :: string where
  "helmPath = ''helm''"

definition insecureSkipVerifyFlag :: string where
  "insecureSkipVerifyFlag = ''--insecure-skip-tls-verify''"

record Helm =
  executable :: Executable
  registryMirror :: "RegistryMirror option"
  env :: "string \<rightharpoonup> string"
  insecure :: bool

text \<open>
  An option is a function that mutates the instance it is given; here it returns the
  updated instance.
\<close>

type_synonym HelmOpt = "Helm \<Rightarrow> Helm"

definition WithRegistryMirror :: "RegistryMirror option \<Rightarrow> HelmOpt" where
  "WithRegistryMirror mirror h = h\<lparr>registryMirror := mirror\<rparr>"

definition WithInsecure :: HelmOpt where
  "WithInsecure h = h\<lparr>insecure := True\<rparr>"

text \<open>
  \<^verbatim>\<open>for k, v := range env { h.env[k] = v }\<close>: every entry of the given map is stored in
  the instance's map, the other entries stay. The map of an instance is allocated by
  \<^verbatim>\<open>NewHelm\<close> and no option replaces it, so it is never the nil map.
\<close>

definition WithEnv :: "(string \<rightharpoonup> string) \<Rightarrow> HelmOpt" where
  "WithEnv vars h = h\<lparr>env := env h ++ vars\<rparr>"

text \<open>The loop \<^verbatim>\<open>for _, o := range opts { o(h) }\<close>.\<close>

fun applyOpts :: "HelmOpt list \<Rightarrow> Helm \<Rightarrow> Helm" where
  "applyOpts [] h = h"
| "applyOpts (opt # opts) h = applyOpts opts (opt h)"

definition NewHelm :: "Executable \<Rightarrow> HelmOpt list \<Rightarrow> Helm" where
  "NewHelm exe opts =
     applyOpts opts
       \<lparr>executable = exe,
        registryMirror = None,
        env = [''HELM_EXPERIMENTAL_OCI'' \<mapsto> ''1''],
        insecure = False\<rparr>"

definition addInsecureFlagIfProvided :: "Helm \<Rightarrow> string list \<Rightarrow> string list" where
  "addInsecureFlagIfProvided h params =
     (if insecure h then params @ [insecureSkipVerifyFlag] else params)"

definition url :: "Helm \<Rightarrow> string \<Rightarrow> string" where
  "url h originalURL = ReplaceRegistry (registryMirror h) originalURL"

fun GetHelmValueArgs :: "string list \<Rightarrow> string list" where
  "GetHelmValueArgs [] = []"
| "GetHelmValueArgs (v # vals) = ''--set'' # v # GetHelmValueArgs vals"

subsection \<open>Operations\<close>

text \<open>
  Every operation returns, next to its Go result, the list of commands it handed to the
  runner, in order: the empty list when the runner was not invoked. \<^verbatim>\<open>Run\<close> hands the
  command to the instance's runner and records it.
\<close>

definition Run :: "Helm \<Rightarrow> command \<Rightarrow> command list \<times> string \<times> error option" where
  "Run h c = ([c], executable h c)"

text \<open>
  \<^verbatim>\<open>yaml.Marshal\<close> belongs to a library; Template takes it as the parameter \<open>marshal\<close>,
  which returns the error or the serialized text.
\<close>

definition Template ::
  "Helm \<Rightarrow> ('v \<Rightarrow> error + string) \<Rightarrow> string \<Rightarrow> string \<Rightarrow> string \<Rightarrow> 'v \<Rightarrow> string
     \<Rightarrow> command list \<times> (error + string)" where
  "Template h marshal ociURI version namespace vals kubeVersion =
     (case marshal vals of
        Inl err \<Rightarrow>
          ([], Inl (ErrorString (''failed marshalling values for helm template: '' @ ErrorMsg err)))
      | Inr valuesYaml \<Rightarrow>
          (let params = [''template'', url h ociURI, ''--version'', version,
                         ''--namespace'', namespace, ''--kube-version'', kubeVersion];
               params = addInsecureFlagIfProvided h params;
               params = params @ [''-f'', ''-''];
               (calls, result, err) =
                 Run h (WithEnvVars (env h) (WithStdIn valuesYaml (Command params)))
           in (case err of
                 Some e \<Rightarrow> (calls, Inl e)
               | None \<Rightarrow> (calls, Inr result))))"

definition PullChart :: "Helm \<Rightarrow> string \<Rightarrow> string \<Rightarrow> command list \<times> error option" where
  "PullChart h ociURI version =
     (let params = [''pull'', url h ociURI, ''--version'', version];
          params = addInsecureFlagIfProvided h params;
          (calls, out, err) = Run h (WithEnvVars (env h) (Command params))
      in (calls, err))"

definition ShowValues ::
  "Helm \<Rightarrow> string \<Rightarrow> string \<Rightarrow> command list \<times> string \<times> error option" where
  "ShowValues h ociURI version =
     (let params = [''show'', ''values'', url h ociURI, ''--version'', version];
          (calls, out, err) = Run h (WithEnvVars (env h) (Command params))
      in (calls, out, err))"

definition PushChart :: "Helm \<Rightarrow> string \<Rightarrow> string \<Rightarrow> command list \<times> error option" where
  "PushChart h chart registry =
     (let params = [''push'', chart, registry];
          params = addInsecureFlagIfProvided h params;
          (calls, out, err) = Run h (WithEnvVars (env h) (Command params))
      in (calls, err))"

definition RegistryLogin ::
  "Helm \<Rightarrow> string \<Rightarrow> string \<Rightarrow> string \<Rightarrow> command list \<times> error option" where
  "RegistryLogin h registry username password =
     (let params = [''registry'', ''login'', registry, ''--username'', username,
                    ''--password-stdin''];
          params = (if insecure h then params @ [''--insecure''] else params);
          (calls, out, err) =
            Run h (WithStdIn password (WithEnvVars (env h) (Command params)))
      in (calls, err))"

definition SaveChart ::
  "Helm \<Rightarrow> string \<Rightarrow> string \<Rightarrow> string \<Rightarrow> command list \<times> error option" where
  "SaveChart h ociURI version folder =
     (let params = [''pull'', url h ociURI, ''--version'', version, ''--destination'', folder];
          params = addInsecureFlagIfProvided h params;
          (calls, out, err) = Run h (WithEnvVars (env h) (Command params))
      in (calls, err))"

definition InstallChartFromName ::
  "Helm \<Rightarrow> string \<Rightarrow> string \<Rightarrow> string \<Rightarrow> string \<Rightarrow> command list \<times> error option" where
  "InstallChartFromName h ociURI kubeConfig name version =
     (let params = [''upgrade'', ''--install'', name, ociURI, ''--version'', version,
                    ''--kubeconfig'', kubeConfig];
          params = addInsecureFlagIfProvided h params;
          (calls, out, err) = Run h (WithEnvVars (env h) (Command params))
      in (calls, err))"

definition InstallChart ::
  "Helm \<Rightarrow> string \<Rightarrow> string \<Rightarrow> string \<Rightarrow> string \<Rightarrow> string \<Rightarrow> string \<Rightarrow> bool \<Rightarrow> string list
     \<Rightarrow> command list \<times> error option" where
  "InstallChart h chart ociURI version kubeconfigFilePath namespace valueFilePath skipCRDs vals =
     (let valueArgs = GetHelmValueArgs vals;
          params = [''upgrade'', ''--install'', chart, ociURI, ''--version'', version];
          params = (if skipCRDs then params @ [''--skip-crds''] else params);
          params = params @ valueArgs;
          params = (if kubeconfigFilePath \<noteq> ''''
                    then params @ [''--kubeconfig'', kubeconfigFilePath] else params);
          params = (if length namespace > 0
                    then params @ [''--create-namespace'', ''--namespace'', namespace]
                    else params);
          params = (if valueFilePath \<noteq> '''' then params @ [''-f'', valueFilePath] else params);
          params = addInsecureFlagIfProvided h params;
          (calls, out, err) = Run h (WithEnvVars (env h) (Command params))
      in (calls, err))"

definition InstallChartWithValuesFile ::
  "Helm \<Rightarrow> string \<Rightarrow> string \<Rightarrow> string \<Rightarrow> string \<Rightarrow> string \<Rightarrow> command list \<times> error option" where
  "InstallChartWithValuesFile h chart ociURI version kubeconfigFilePath valuesFilePath =
     (let params = [''upgrade'', ''--install'', chart, ociURI, ''--version'', version,
                    ''--values'', valuesFilePath, ''--kubeconfig'', kubeconfigFilePath,
                    ''--wait''];
          params = addInsecureFlagIfProvided h params;
          (calls, out, err) = Run h (WithEnvVars (env h) (Command params))
      in (calls, err))"

definition Delete ::
  "Helm \<Rightarrow> string \<Rightarrow> string \<Rightarrow> string \<Rightarrow> command list \<times> error option" where
  "Delete h kubeconfigFilePath installName namespace =
     (let params = [''delete'', installName, ''--kubeconfig'', kubeconfigFilePath];
          params = (if namespace \<noteq> '''' then params @ [''--namespace'', namespace] else params);
          params = addInsecureFlagIfProvided h params;
          (calls, out, err) = Run h (WithEnvVars (env h) (Command params))
      in (case err of
            Some e \<Rightarrow>
              (calls, Some (WrapError (''deleting helm installation '' @ ErrorMsg e) e))
          | None \<Rightarrow> (calls, None)))"

text \<open>
  \<^verbatim>\<open>strings.FieldsFunc\<close> of the Go library: it walks the string once, opens a field at
  the first character that does not satisfy \<open>f\<close>, closes it at the next one that does, and
  closes a field still open at the end. The second argument is the field that is open.
  The Go loop walks code points and cuts at byte offsets; the predicate used here holds for
  the newline only, a single byte that is never part of a longer UTF-8 sequence, so walking
  the bytes yields the same fields.
\<close>

fun FieldsFunc_from :: "(char \<Rightarrow> bool) \<Rightarrow> string option \<Rightarrow> string \<Rightarrow> string list" where
  "FieldsFunc_from f None [] = []"
| "FieldsFunc_from f (Some field) [] = [field]"
| "FieldsFunc_from f None (c # cs) =
     (if f c then FieldsFunc_from f None cs else FieldsFunc_from f (Some [c]) cs)"
| "FieldsFunc_from f (Some field) (c # cs) =
     (if f c then field # FieldsFunc_from f None cs
      else FieldsFunc_from f (Some (field @ [c])) cs)"

definition FieldsFunc :: "string \<Rightarrow> (char \<Rightarrow> bool) \<Rightarrow> string list" where
  "FieldsFunc s f = FieldsFunc_from f None s"

definition isNewline :: "char \<Rightarrow> bool" where
  "isNewline c = (c = CHR 0x0A)"

definition ListCharts :: "Helm \<Rightarrow> string \<Rightarrow> command list \<times> (error + string list)" where
  "ListCharts h kubeconfigFilePath =
     (let params = [''list'', ''-q'', ''--kubeconfig'', kubeconfigFilePath];
          (calls, out, err) = Run h (WithEnvVars (env h) (Command params))
      in (case err of
            Some e \<Rightarrow> (calls, Inl e)
          | None \<Rightarrow> (calls, Inr (FieldsFunc out isNewline))))"

text \<open>
  The receiver is a pointer and the options are applied to it, so the operation also
  returns the instance as it is after the call.
\<close>

definition UpgradeChartWithValuesFile ::
  "Helm \<Rightarrow> string \<Rightarrow> string \<Rightarrow> string \<Rightarrow> string \<Rightarrow> string \<Rightarrow> HelmOpt list
     \<Rightarrow> Helm \<times> command list \<times> error option" where
  "UpgradeChartWithValuesFile h chart ociURI version kubeconfigFilePath valuesFilePath opts =
     (let params = [''upgrade'', chart, ociURI, ''--version'', version,
                    ''--values'', valuesFilePath, ''--kubeconfig'', kubeconfigFilePath,
                    ''--wait''];
          h = applyOpts opts h;
          params = addInsecureFlagIfProvided h params;
          (calls, out, err) = Run h (WithEnvVars (env h) (Command params))
      in (h, calls, err))"

subsection \<open>Line splitting as the specification words it\<close>

text \<open>
  The spec describes the result of ListCharts as the output split on newline boundaries,
  empty segments dropped. \<open>splitOn\<close> cuts a string at every occurrence of the separator
  (one segment more than there are separators); \<open>nonEmptyLines\<close> drops the empty
  segments. These two follow the spec's words, not the code, and are compared with
  \<^const>\<open>FieldsFunc\<close> below.
\<close>

fun splitOn :: "char \<Rightarrow> string \<Rightarrow> string list" where
  "splitOn sep [] = [[]]"
| "splitOn sep (c # cs) =
     (if c = sep then [] # splitOn sep cs
      else (case splitOn sep cs of
              [] \<Rightarrow> [[c]]
            | seg # segs \<Rightarrow> (c # seg) # segs))"

definition nonEmptyLines :: "string \<Rightarrow> string list" where
  "nonEmptyLines s = filter (\<lambda>seg. seg \<noteq> []) (splitOn (CHR 0x0A) s)"

subsection \<open>Runners used as concrete inputs\<close>

text \<open>A runner that succeeds with a fixed output, and one that fails with a fixed error.\<close>

definition succeeding :: "string \<Rightarrow> Executable" where
  "succeeding out c = (out, None)"

definition failing :: "error \<Rightarrow> Executable" where
  "failing e c = ([], Some e)"

text \<open>A mirror that puts every reference under the host \<^verbatim>\<open>mirror.local\<close>.\<close>

definition toMirror :: RegistryMirror where
  "toMirror ref = ''mirror.local/'' @ ref"

text \<open>A serializer with a fixed outcome, whatever the payload.\<close>

definition marshalling :: "error + string \<Rightarrow> 'v \<Rightarrow> error + string" where
  "marshalling outcome v = outcome"

section \<open>Properties\<close>

subsection \<open>The command issued by each operation\<close>

text \<open>
  Each operation hands exactly one command to the runner (Template none when the
  serialization fails); the lemmas below give that command.
\<close>

lemmas op_defs = Run_def WithEnvVars_def WithStdIn_def Command_def Let_def split_beta

lemma Template_calls:
  "marshal vals = Inr valuesYaml \<Longrightarrow>
   fst (Template h marshal ociURI version namespace vals kubeVersion) =
     [\<lparr>args = addInsecureFlagIfProvided h
                [''template'', url h ociURI, ''--version'', version,
                 ''--namespace'', namespace, ''--kube-version'', kubeVersion] @ [''-f'', ''-''],
       stdIn = Some valuesYaml, envVars = env h\<rparr>]"
  by (simp add: Template_def op_defs split: option.splits)

lemma PullChart_calls:
  "fst (PullChart h ociURI version) =
     [\<lparr>args = addInsecureFlagIfProvided h [''pull'', url h ociURI, ''--version'', version],
       stdIn = None, envVars = env h\<rparr>]"
  by (simp add: PullChart_def op_defs)

lemma ShowValues_calls:
  "fst (ShowValues h ociURI version) =
     [\<lparr>args = [''show'', ''values'', url h ociURI, ''--version'', version],
       stdIn = None, envVars = env h\<rparr>]"
  by (simp add: ShowValues_def op_defs)

lemma PushChart_calls:
  "fst (PushChart h chart registry) =
     [\<lparr>args = addInsecureFlagIfProvided h [''push'', chart, registry],
       stdIn = None, envVars = env h\<rparr>]"
  by (simp add: PushChart_def op_defs)

lemma RegistryLogin_calls:
  "fst (RegistryLogin h registry username password) =
     [\<lparr>args = [''registry'', ''login'', registry, ''--username'', username, ''--password-stdin'']
              @ (if insecure h then [''--insecure''] else []),
       stdIn = Some password, envVars = env h\<rparr>]"
  by (simp add: RegistryLogin_def op_defs)

lemma SaveChart_calls:
  "fst (SaveChart h ociURI version folder) =
     [\<lparr>args = addInsecureFlagIfProvided h
                [''pull'', url h ociURI, ''--version'', version, ''--destination'', folder],
       stdIn = None, envVars = env h\<rparr>]"
  by (simp add: SaveChart_def op_defs)

lemma InstallChartFromName_calls:
  "fst (InstallChartFromName h ociURI kubeConfig name version) =
     [\<lparr>args = addInsecureFlagIfProvided h
                [''upgrade'', ''--install'', name, ociURI, ''--version'', version,
                 ''--kubeconfig'', kubeConfig],
       stdIn = None, envVars = env h\<rparr>]"
  by (simp add: InstallChartFromName_def op_defs)

lemma InstallChart_calls:
  "fst (InstallChart h chart ociURI version kubeconfigFilePath namespace valueFilePath skipCRDs vals) =
     [\<lparr>args = addInsecureFlagIfProvided h
                ([''upgrade'', ''--install'', chart, ociURI, ''--version'', version]
                 @ (if skipCRDs then [''--skip-crds''] else [])
                 @ GetHelmValueArgs vals
                 @ (if kubeconfigFilePath \<noteq> '''' then [''--kubeconfig'', kubeconfigFilePath] else [])
                 @ (if namespace \<noteq> '''' then [''--create-namespace'', ''--namespace'', namespace] else [])
                 @ (if valueFilePath \<noteq> '''' then [''-f'', valueFilePath] else [])),
       stdIn = None, envVars = env h\<rparr>]"
  by (simp add: InstallChart_def op_defs)

lemma InstallChartWithValuesFile_calls:
  "fst (InstallChartWithValuesFile h chart ociURI version kubeconfigFilePath valuesFilePath) =
     [\<lparr>args = addInsecureFlagIfProvided h
                [''upgrade'', ''--install'', chart, ociURI, ''--version'', version,
                 ''--values'', valuesFilePath, ''--kubeconfig'', kubeconfigFilePath, ''--wait''],
       stdIn = None, envVars = env h\<rparr>]"
  by (simp add: InstallChartWithValuesFile_def op_defs)

lemma Delete_calls:
  "fst (Delete h kubeconfigFilePath installName namespace) =
     [\<lparr>args = addInsecureFlagIfProvided h
                ([''delete'', installName, ''--kubeconfig'', kubeconfigFilePath]
                 @ (if namespace \<noteq> '''' then [''--namespace'', namespace] else [])),
       stdIn = None, envVars = env h\<rparr>]"
  by (simp add: Delete_def op_defs split: option.splits)

lemma ListCharts_calls:
  "fst (ListCharts h kubeconfigFilePath) =
     [\<lparr>args = [''list'', ''-q'', ''--kubeconfig'', kubeconfigFilePath],
       stdIn = None, envVars = env h\<rparr>]"
  by (simp add: ListCharts_def op_defs split: option.splits)

lemma UpgradeChartWithValuesFile_calls:
  "fst (snd (UpgradeChartWithValuesFile h chart ociURI version kubeconfigFilePath valuesFilePath opts)) =
     [\<lparr>args = addInsecureFlagIfProvided (applyOpts opts h)
                [''upgrade'', chart, ociURI, ''--version'', version,
                 ''--values'', valuesFilePath, ''--kubeconfig'', kubeconfigFilePath, ''--wait''],
       stdIn = None, envVars = env (applyOpts opts h)\<rparr>]"
  by (simp add: UpgradeChartWithValuesFile_def op_defs)

lemma UpgradeChartWithValuesFile_instance:
  "fst (UpgradeChartWithValuesFile h chart ociURI version kubeconfigFilePath valuesFilePath opts) =
     applyOpts opts h"
  by (simp add: UpgradeChartWithValuesFile_def op_defs)

subsection \<open>The chart reference\<close>

lemma url_Some: "registryMirror h = Some rewrite \<Longrightarrow> url h u = rewrite u"
  by (simp add: url_def ReplaceRegistry_def)

lemma url_None: "registryMirror h = None \<Longrightarrow> url h u = u"
  by (simp add: url_def ReplaceRegistry_def)

subsection \<open>Splitting the output of the list command\<close>

lemma splitOn_not_Nil: "splitOn sep s \<noteq> []"
  by (induction s) (auto split: list.splits)

lemma splitOn_Cons:
  "splitOn sep (c # cs) =
     (if c = sep then [] # splitOn sep cs
      else (c # hd (splitOn sep cs)) # tl (splitOn sep cs))"
  using splitOn_not_Nil [of sep cs] by (cases "splitOn sep cs") simp_all

text \<open>
  The loop of \<^const>\<open>FieldsFunc\<close> against the segments of \<^const>\<open>splitOn\<close>: with no field open
  it yields the non-empty segments; with a field open, the first segment continues that
  field.
\<close>

lemma FieldsFunc_from_splitOn:
  "FieldsFunc_from isNewline None s = filter (\<lambda>seg. seg \<noteq> []) (splitOn (CHR 0x0A) s)"
  "field \<noteq> [] \<Longrightarrow>
   FieldsFunc_from isNewline (Some field) s =
     (field @ hd (splitOn (CHR 0x0A) s)) # filter (\<lambda>seg. seg \<noteq> []) (tl (splitOn (CHR 0x0A) s))"
proof (induction s arbitrary: field)
  case Nil
  { case 1 show ?case by simp }
  { case 2 show ?case by simp }
next
  case (Cons c cs)
  { case 1 show ?case using Cons.IH by (simp add: splitOn_Cons isNewline_def del: splitOn.simps) }
  { case 2 then show ?case using Cons.IH by (simp add: splitOn_Cons isNewline_def del: splitOn.simps) }
qed

lemma FieldsFunc_newline: "FieldsFunc s isNewline = nonEmptyLines s"
  by (simp add: FieldsFunc_def nonEmptyLines_def FieldsFunc_from_splitOn(1))

subsection \<open>The insecure flag\<close>

lemma set_GetHelmValueArgs: "x \<in> set (GetHelmValueArgs vals) \<Longrightarrow> x = ''--set'' \<or> x \<in> set vals"
  by (induction vals) auto

lemma flag_not_set: "insecureSkipVerifyFlag \<noteq> ''--set''"
  by (simp add: insecureSkipVerifyFlag_def)

lemma flag_not_in_GetHelmValueArgs:
  "insecureSkipVerifyFlag \<notin> set vals \<Longrightarrow> insecureSkipVerifyFlag \<notin> set (GetHelmValueArgs vals)"
  using set_GetHelmValueArgs flag_not_set by blast

lemma last_addInsecureFlagIfProvided:
  "insecure h \<Longrightarrow> last (addInsecureFlagIfProvided h params) = insecureSkipVerifyFlag"
  by (simp add: addInsecureFlagIfProvided_def)

lemma addInsecureFlagIfProvided_off:
  "\<not> insecure h \<Longrightarrow> addInsecureFlagIfProvided h params = params"
  by (simp add: addInsecureFlagIfProvided_def)

text \<open>
  The operations that end their argument list with the flag when the instance is insecure.
\<close>

lemma flag_last_when_insecure:
  assumes "insecure h"
  shows
    "map (\<lambda>c. last (args c)) (fst (PullChart h ociURI version)) = [insecureSkipVerifyFlag]"
    "map (\<lambda>c. last (args c)) (fst (PushChart h chart registry)) = [insecureSkipVerifyFlag]"
    "map (\<lambda>c. last (args c)) (fst (SaveChart h ociURI version folder)) = [insecureSkipVerifyFlag]"
    "map (\<lambda>c. last (args c)) (fst (InstallChartFromName h ociURI kubeConfig name version))
       = [insecureSkipVerifyFlag]"
    "map (\<lambda>c. last (args c))
       (fst (InstallChart h chart ociURI version kubeconfigFilePath namespace valueFilePath
               skipCRDs overrides)) = [insecureSkipVerifyFlag]"
    "map (\<lambda>c. last (args c))
       (fst (InstallChartWithValuesFile h chart ociURI version kubeconfigFilePath valuesFilePath))
       = [insecureSkipVerifyFlag]"
    "map (\<lambda>c. last (args c)) (fst (Delete h kubeconfigFilePath installName namespace))
       = [insecureSkipVerifyFlag]"
  using assms
  by (simp_all only: PullChart_calls PushChart_calls SaveChart_calls InstallChartFromName_calls
        InstallChart_calls InstallChartWithValuesFile_calls Delete_calls list.map
        command.simps last_addInsecureFlagIfProvided)

text \<open>
  With the insecure flag off, these operations build a list in which the flag occurs only
  if one of the given strings is the flag.
\<close>

lemma flag_absent_when_secure:
  assumes "insecureSkipVerifyFlag \<notin>
           set ([url h ociURI, ociURI, version, namespace, kubeVersion, chart, registry, folder,
                 kubeConfig, name, kubeconfigFilePath, valueFilePath, valuesFilePath, installName,
                 username] @ overrides)"
    and "\<not> insecure h"
  shows
    "marshal vals = Inr valuesYaml \<Longrightarrow>
     \<forall>c \<in> set (fst (Template h marshal ociURI version namespace vals kubeVersion)).
       insecureSkipVerifyFlag \<notin> set (args c)"
    "\<forall>c \<in> set (fst (PullChart h ociURI version)). insecureSkipVerifyFlag \<notin> set (args c)"
    "\<forall>c \<in> set (fst (PushChart h chart registry)). insecureSkipVerifyFlag \<notin> set (args c)"
    "\<forall>c \<in> set (fst (SaveChart h ociURI version folder)). insecureSkipVerifyFlag \<notin> set (args c)"
    "\<forall>c \<in> set (fst (InstallChartFromName h ociURI kubeConfig name version)).
       insecureSkipVerifyFlag \<notin> set (args c)"
    "\<forall>c \<in> set (fst (InstallChart h chart ociURI version kubeconfigFilePath namespace
                        valueFilePath skipCRDs overrides)).
       insecureSkipVerifyFlag \<notin> set (args c)"
    "\<forall>c \<in> set (fst (InstallChartWithValuesFile h chart ociURI version kubeconfigFilePath
                        valuesFilePath)).
       insecureSkipVerifyFlag \<notin> set (args c)"
    "\<forall>c \<in> set (fst (Delete h kubeconfigFilePath installName namespace)).
       insecureSkipVerifyFlag \<notin> set (args c)"
proof -
  have v: "insecureSkipVerifyFlag \<notin> set (GetHelmValueArgs overrides)"
    using assms(1) by (simp add: flag_not_in_GetHelmValueArgs)
  show "marshal vals = Inr valuesYaml \<Longrightarrow>
     \<forall>c \<in> set (fst (Template h marshal ociURI version namespace vals kubeVersion)).
       insecureSkipVerifyFlag \<notin> set (args c)"
    using assms by (simp add: Template_calls addInsecureFlagIfProvided_off) (simp add: insecureSkipVerifyFlag_def)
  show "\<forall>c \<in> set (fst (PullChart h ociURI version)). insecureSkipVerifyFlag \<notin> set (args c)"
    using assms by (simp add: PullChart_calls addInsecureFlagIfProvided_off) (simp add: insecureSkipVerifyFlag_def)
  show "\<forall>c \<in> set (fst (PushChart h chart registry)). insecureSkipVerifyFlag \<notin> set (args c)"
    using assms by (simp add: PushChart_calls addInsecureFlagIfProvided_off) (simp add: insecureSkipVerifyFlag_def)
  show "\<forall>c \<in> set (fst (SaveChart h ociURI version folder)). insecureSkipVerifyFlag \<notin> set (args c)"
    using assms by (simp add: SaveChart_calls addInsecureFlagIfProvided_off) (simp add: insecureSkipVerifyFlag_def)
  show "\<forall>c \<in> set (fst (InstallChartFromName h ociURI kubeConfig name version)).
       insecureSkipVerifyFlag \<notin> set (args c)"
    using assms by (simp add: InstallChartFromName_calls addInsecureFlagIfProvided_off) (simp add: insecureSkipVerifyFlag_def)
  show "\<forall>c \<in> set (fst (InstallChart h chart ociURI version kubeconfigFilePath namespace
                        valueFilePath skipCRDs overrides)).
       insecureSkipVerifyFlag \<notin> set (args c)"
    using assms v by (simp add: InstallChart_calls addInsecureFlagIfProvided_off) (simp add: insecureSkipVerifyFlag_def)
  show "\<forall>c \<in> set (fst (InstallChartWithValuesFile h chart ociURI version kubeconfigFilePath
                        valuesFilePath)).
       insecureSkipVerifyFlag \<notin> set (args c)"
    using assms by (simp add: InstallChartWithValuesFile_calls addInsecureFlagIfProvided_off) (simp add: insecureSkipVerifyFlag_def)
  show "\<forall>c \<in> set (fst (Delete h kubeconfigFilePath installName namespace)).
       insecureSkipVerifyFlag \<notin> set (args c)"
    using assms by (simp add: Delete_calls addInsecureFlagIfProvided_off) (simp add: insecureSkipVerifyFlag_def)
qed

text \<open>
  ShowValues, ListCharts and RegistryLogin do not add the flag, insecure or not.
\<close>

lemma flag_never_added:
  assumes "insecureSkipVerifyFlag \<notin>
           set ([url h ociURI, ociURI, version, namespace, kubeVersion, chart, registry, folder,
                 kubeConfig, name, kubeconfigFilePath, valueFilePath, valuesFilePath, installName,
                 username] @ overrides)"
  shows
    "\<forall>c \<in> set (fst (ShowValues h ociURI version)). insecureSkipVerifyFlag \<notin> set (args c)"
    "\<forall>c \<in> set (fst (ListCharts h kubeconfigFilePath)). insecureSkipVerifyFlag \<notin> set (args c)"
    "\<forall>c \<in> set (fst (RegistryLogin h registry username password)).
       insecureSkipVerifyFlag \<notin> set (args c)"
  using assms
  by (simp_all add: ShowValues_calls ListCharts_calls RegistryLogin_calls)
     (simp_all add: insecureSkipVerifyFlag_def)

lemma flag_in_Template_when_insecure:
  "insecure h \<Longrightarrow> marshal vals = Inr valuesYaml \<Longrightarrow>
   map args (fst (Template h marshal ociURI version namespace vals kubeVersion)) =
     [[''template'', url h ociURI, ''--version'', version, ''--namespace'', namespace,
       ''--kube-version'', kubeVersion, insecureSkipVerifyFlag, ''-f'', ''-'']]"
  by (simp add: Template_calls addInsecureFlagIfProvided_def)

lemma flag_in_Upgrade:
  "insecure (applyOpts opts h) \<Longrightarrow>
   map (\<lambda>c. last (args c))
     (fst (snd (UpgradeChartWithValuesFile h chart ociURI version kubeconfigFilePath
                  valuesFilePath opts))) = [insecureSkipVerifyFlag]"
  "insecureSkipVerifyFlag \<notin>
           set ([url h ociURI, ociURI, version, namespace, kubeVersion, chart, registry, folder,
                 kubeConfig, name, kubeconfigFilePath, valueFilePath, valuesFilePath, installName,
                 username] @ overrides) \<Longrightarrow>
   \<not> insecure (applyOpts opts h) \<Longrightarrow>
   \<forall>c \<in> set (fst (snd (UpgradeChartWithValuesFile h chart ociURI version kubeconfigFilePath
                           valuesFilePath opts))).
     insecureSkipVerifyFlag \<notin> set (args c)"
   apply (simp add: UpgradeChartWithValuesFile_calls last_addInsecureFlagIfProvided)
  apply (simp add: UpgradeChartWithValuesFile_calls addInsecureFlagIfProvided_off)
  apply (simp add: insecureSkipVerifyFlag_def)
  done

subsection \<open>The environment mapping\<close>

lemma env_applyOpts_WithEnv:
  "env (applyOpts (map WithEnv envs) h) = foldl (++) (env h) envs"
  by (induction envs arbitrary: h) (simp_all add: WithEnv_def)

lemma dom_foldl_map_add: "dom (foldl (++) m ms) = dom m \<union> (\<Union>m' \<in> set ms. dom m')"
  by (induction ms arbitrary: m) auto

lemma foldl_map_add_last:
  "m k = Some v \<Longrightarrow> \<forall>m' \<in> set after. m' k = None \<Longrightarrow>
   foldl (++) m0 (before @ [m] @ after) k = Some v"
proof (induction after rule: rev_induct)
  case Nil
  then show ?case by simp
next
  case (snoc m' after)
  then show ?case by (simp add: map_add_def)
qed

lemma foldl_map_add_unset:
  "\<forall>m \<in> set ms. m k = None \<Longrightarrow> foldl (++) m0 ms k = m0 k"
  by (induction ms arbitrary: m0) (simp_all add: map_add_def)

lemma envVars_of_operations:
  "map envVars (fst (PullChart h ociURI version)) = [env h]"
  "map envVars (fst (ShowValues h ociURI version)) = [env h]"
  "map envVars (fst (PushChart h chart registry)) = [env h]"
  "map envVars (fst (RegistryLogin h registry username password)) = [env h]"
  "map envVars (fst (SaveChart h ociURI version folder)) = [env h]"
  "map envVars (fst (InstallChartFromName h ociURI kubeConfig name version)) = [env h]"
  "map envVars
     (fst (InstallChart h chart ociURI version kubeconfigFilePath namespace valueFilePath
             skipCRDs overrides)) = [env h]"
  "map envVars
     (fst (InstallChartWithValuesFile h chart ociURI version kubeconfigFilePath valuesFilePath))
     = [env h]"
  "map envVars (fst (Delete h kubeconfigFilePath installName namespace)) = [env h]"
  "map envVars (fst (ListCharts h kubeconfigFilePath)) = [env h]"
  "map envVars
     (fst (snd (UpgradeChartWithValuesFile h chart ociURI version kubeconfigFilePath
                  valuesFilePath opts))) = [env (applyOpts opts h)]"
  by (simp_all add: PullChart_calls ShowValues_calls PushChart_calls RegistryLogin_calls
        SaveChart_calls InstallChartFromName_calls InstallChart_calls
        InstallChartWithValuesFile_calls Delete_calls ListCharts_calls
        UpgradeChartWithValuesFile_calls)

subsection \<open>Applying a list of options\<close>

text \<open>
  The loop over the options is the left fold of the library: every option of the list is
  applied, in the order of the list, each to the instance the previous ones left. The three
  options of the package never clear the insecure flag.
\<close>

lemma applyOpts_foldl: "applyOpts opts h = foldl (\<lambda>h' opt. opt h') h opts"
  by (induction opts arbitrary: h) simp_all

lemma applyOpts_append: "applyOpts (xs @ ys) h = applyOpts ys (applyOpts xs h)"
  by (induction xs arbitrary: h) simp_all

lemma options_keep_insecure:
  "insecure h \<Longrightarrow> insecure (WithEnv vars h)"
  "insecure h \<Longrightarrow> insecure (WithRegistryMirror mirror h)"
  "insecure h \<Longrightarrow> insecure (WithInsecure h)"
  by (simp_all add: WithEnv_def WithRegistryMirror_def WithInsecure_def)

lemma applyOpts_keeps_insecure:
  "\<forall>opt \<in> set opts. \<forall>h'. insecure h' \<longrightarrow> insecure (opt h') \<Longrightarrow> insecure h \<Longrightarrow>
   insecure (applyOpts opts h)"
  by (induction opts arbitrary: h) simp_all

lemma applyOpts_WithInsecure_somewhere:
  assumes "opts = pre @ [WithInsecure] @ post"
    and "\<forall>opt \<in> set post. \<forall>h'. insecure h' \<longrightarrow> insecure (opt h')"
  shows "insecure (applyOpts opts h)"
proof -
  have "insecure (WithInsecure (applyOpts pre h))"
    by (simp add: WithInsecure_def)
  then have "insecure (applyOpts post (WithInsecure (applyOpts pre h)))"
    using assms(2) by (rule applyOpts_keeps_insecure [rotated])
  then show ?thesis
    by (simp add: assms(1) applyOpts_append)
qed

subsection \<open>Claims\<close>

text \<open>
  C1, as amended. Template, PullChart, ShowValues and SaveChart place in the argument list
  the mirror's rewrite of the chart reference when a mirror is configured, and the reference
  itself when none is. InstallChartFromName, InstallChart, InstallChartWithValuesFile and
  UpgradeChartWithValuesFile place the reference they are given, mirror or not, and
  PushChart places its chart and destination as given. The reference is the token at
  index 1 (index 2 after \<^verbatim>\<open>show values\<close> and \<^verbatim>\<open>upgrade <name>\<close>, index 3 after
  \<^verbatim>\<open>upgrade --install <name>\<close>).
\<close>

theorem chart_reference_rewrite:
  assumes "marshal vals = Inr valuesYaml"
  shows
  "(registryMirror h = Some rewrite \<longrightarrow>
      map (\<lambda>c. args c ! 1) (fst (Template h marshal ociURI version namespace vals kubeVersion))
        = [rewrite ociURI] \<and>
      map (\<lambda>c. args c ! 1) (fst (PullChart h ociURI version)) = [rewrite ociURI] \<and>
      map (\<lambda>c. args c ! 2) (fst (ShowValues h ociURI version)) = [rewrite ociURI] \<and>
      map (\<lambda>c. args c ! 1) (fst (SaveChart h ociURI version folder)) = [rewrite ociURI]) \<and>
   (registryMirror h = None \<longrightarrow>
      map (\<lambda>c. args c ! 1) (fst (Template h marshal ociURI version namespace vals kubeVersion))
        = [ociURI] \<and>
      map (\<lambda>c. args c ! 1) (fst (PullChart h ociURI version)) = [ociURI] \<and>
      map (\<lambda>c. args c ! 2) (fst (ShowValues h ociURI version)) = [ociURI] \<and>
      map (\<lambda>c. args c ! 1) (fst (SaveChart h ociURI version folder)) = [ociURI]) \<and>
   map (\<lambda>c. args c ! 3) (fst (InstallChartFromName h ociURI kubeConfig name version)) = [ociURI] \<and>
   map (\<lambda>c. args c ! 3)
     (fst (InstallChart h chart ociURI version kubeconfigFilePath namespace valueFilePath
             skipCRDs overrides)) = [ociURI] \<and>
   map (\<lambda>c. args c ! 3)
     (fst (InstallChartWithValuesFile h chart ociURI version kubeconfigFilePath valuesFilePath))
     = [ociURI] \<and>
   map (\<lambda>c. args c ! 2)
     (fst (snd (UpgradeChartWithValuesFile h chart ociURI version kubeconfigFilePath
                  valuesFilePath opts))) = [ociURI] \<and>
   map (\<lambda>c. [args c ! 1, args c ! 2]) (fst (PushChart h chart registry)) = [[chart, registry]]"
proof -
  have rewritten:
    "map (\<lambda>c. args c ! 1) (fst (Template h marshal ociURI version namespace vals kubeVersion))
       = [url h ociURI]"
    "map (\<lambda>c. args c ! 1) (fst (PullChart h ociURI version)) = [url h ociURI]"
    "map (\<lambda>c. args c ! 2) (fst (ShowValues h ociURI version)) = [url h ociURI]"
    "map (\<lambda>c. args c ! 1) (fst (SaveChart h ociURI version folder)) = [url h ociURI]"
    using assms
    by (simp_all add: Template_calls PullChart_calls ShowValues_calls SaveChart_calls
          addInsecureFlagIfProvided_def)
  have verbatim:
    "map (\<lambda>c. args c ! 3) (fst (InstallChartFromName h ociURI kubeConfig name version)) = [ociURI]"
    "map (\<lambda>c. args c ! 3)
       (fst (InstallChart h chart ociURI version kubeconfigFilePath namespace valueFilePath
               skipCRDs overrides)) = [ociURI]"
    "map (\<lambda>c. args c ! 3)
       (fst (InstallChartWithValuesFile h chart ociURI version kubeconfigFilePath valuesFilePath))
       = [ociURI]"
    "map (\<lambda>c. args c ! 2)
       (fst (snd (UpgradeChartWithValuesFile h chart ociURI version kubeconfigFilePath
                    valuesFilePath opts))) = [ociURI]"
    "map (\<lambda>c. [args c ! 1, args c ! 2]) (fst (PushChart h chart registry)) = [[chart, registry]]"
    by (simp_all add: InstallChartFromName_calls InstallChart_calls
          InstallChartWithValuesFile_calls UpgradeChartWithValuesFile_calls PushChart_calls
          addInsecureFlagIfProvided_def)
  show ?thesis
    using rewritten verbatim by (simp add: url_Some url_None)
qed

text \<open>
  The theorem at an instance with the mirror \<^const>\<open>toMirror\<close> and at one without mirror.
\<close>

theorem chart_reference_rewrite_witness:
  "marshalling (Inr ''a: 1'') () = Inr ''a: 1'' \<and>
   registryMirror (NewHelm (succeeding []) [WithRegistryMirror (Some toMirror)]) = Some toMirror \<and>
   map (\<lambda>c. args c ! 1)
     (fst (PullChart (NewHelm (succeeding []) [WithRegistryMirror (Some toMirror)])
             ''registry.example/x'' ''1.0'')) = [''mirror.local/registry.example/x''] \<and>
   registryMirror (NewHelm (succeeding []) []) = None \<and>
   map (\<lambda>c. args c ! 1)
     (fst (Template (NewHelm (succeeding []) []) (marshalling (Inr ''a: 1''))
             ''registry.example/x'' ''1.0'' ''ns'' () ''1.27'')) = [''registry.example/x'']"
  using chart_reference_rewrite [where marshal = "marshalling (Inr ''a: 1'')" and vals = "()"
          and valuesYaml = "''a: 1''" and rewrite = toMirror
          and h = "NewHelm (succeeding []) [WithRegistryMirror (Some toMirror)]"
          and ociURI = "''registry.example/x''" and version = "''1.0''"]
        chart_reference_rewrite [where marshal = "marshalling (Inr ''a: 1'')" and vals = "()"
          and valuesYaml = "''a: 1''"
          and h = "NewHelm (succeeding []) []"
          and ociURI = "''registry.example/x''" and version = "''1.0''" and namespace = "''ns''"
          and kubeVersion = "''1.27''"]
  by (simp add: marshalling_def NewHelm_def WithRegistryMirror_def toMirror_def)

text \<open>
  C1 as stated fails: with the mirror \<^const>\<open>toMirror\<close> configured, InstallChart,
  InstallChartFromName and UpgradeChartWithValuesFile put \<^verbatim>\<open>registry.example/x\<close> in the
  argument list, not its rewrite \<^verbatim>\<open>mirror.local/registry.example/x\<close>.
\<close>

theorem install_reference_not_rewritten:
  "registryMirror (NewHelm (succeeding []) [WithRegistryMirror (Some toMirror)]) = Some toMirror \<and>
   toMirror ''registry.example/x'' = ''mirror.local/registry.example/x'' \<and>
   map args
     (fst (InstallChart (NewHelm (succeeding []) [WithRegistryMirror (Some toMirror)])
             ''r'' ''registry.example/x'' ''1.0'' '''' ''ns'' '''' False []))
     = [[''upgrade'', ''--install'', ''r'', ''registry.example/x'', ''--version'', ''1.0'',
         ''--create-namespace'', ''--namespace'', ''ns'']] \<and>
   map args
     (fst (InstallChartFromName (NewHelm (succeeding []) [WithRegistryMirror (Some toMirror)])
             ''registry.example/x'' ''kube.config'' ''r'' ''1.0''))
     = [[''upgrade'', ''--install'', ''r'', ''registry.example/x'', ''--version'', ''1.0'',
         ''--kubeconfig'', ''kube.config'']] \<and>
   map args
     (fst (snd (UpgradeChartWithValuesFile
                  (NewHelm (succeeding []) [WithRegistryMirror (Some toMirror)])
                  ''r'' ''registry.example/x'' ''1.0'' ''kube.config'' ''values.yaml'' [])))
     = [[''upgrade'', ''r'', ''registry.example/x'', ''--version'', ''1.0'',
         ''--values'', ''values.yaml'', ''--kubeconfig'', ''kube.config'', ''--wait'']]"
  by (simp add: InstallChart_calls InstallChartFromName_calls UpgradeChartWithValuesFile_calls
        NewHelm_def WithRegistryMirror_def toMirror_def addInsecureFlagIfProvided_def)

text \<open>
  C2, as amended. When the insecure flag of the instance is set at invocation time, the
  final token of the argument list built by PullChart, PushChart, SaveChart,
  InstallChartFromName, InstallChart, InstallChartWithValuesFile, Delete and
  UpgradeChartWithValuesFile (whose flag is read after its options are applied) is
  \<^verbatim>\<open>--insecure-skip-tls-verify\<close>, and Template places the flag before its closing
  \<^verbatim>\<open>-f -\<close>. ShowValues, ListCharts and RegistryLogin never add the flag. When the insecure
  flag is not set, no operation adds the flag: it is a token of an argument list only if
  the caller passed it as one of the inputs.
\<close>

theorem insecure_flag_placement:
  assumes "marshal vals = Inr valuesYaml"
  shows
  "(insecure h \<longrightarrow>
      map (\<lambda>c. last (args c)) (fst (PullChart h ociURI version)) = [insecureSkipVerifyFlag] \<and>
      map (\<lambda>c. last (args c)) (fst (PushChart h chart registry)) = [insecureSkipVerifyFlag] \<and>
      map (\<lambda>c. last (args c)) (fst (SaveChart h ociURI version folder)) = [insecureSkipVerifyFlag] \<and>
      map (\<lambda>c. last (args c)) (fst (InstallChartFromName h ociURI kubeConfig name version))
        = [insecureSkipVerifyFlag] \<and>
      map (\<lambda>c. last (args c))
        (fst (InstallChart h chart ociURI version kubeconfigFilePath namespace valueFilePath
                skipCRDs overrides)) = [insecureSkipVerifyFlag] \<and>
      map (\<lambda>c. last (args c))
        (fst (InstallChartWithValuesFile h chart ociURI version kubeconfigFilePath valuesFilePath))
        = [insecureSkipVerifyFlag] \<and>
      map (\<lambda>c. last (args c)) (fst (Delete h kubeconfigFilePath installName namespace))
        = [insecureSkipVerifyFlag] \<and>
      map args (fst (Template h marshal ociURI version namespace vals kubeVersion)) =
        [[''template'', url h ociURI, ''--version'', version, ''--namespace'', namespace,
          ''--kube-version'', kubeVersion, insecureSkipVerifyFlag, ''-f'', ''-'']]) \<and>
   (insecure (applyOpts opts h) \<longrightarrow>
      map (\<lambda>c. last (args c))
        (fst (snd (UpgradeChartWithValuesFile h chart ociURI version kubeconfigFilePath
                     valuesFilePath opts))) = [insecureSkipVerifyFlag]) \<and>
   (insecureSkipVerifyFlag \<notin>
      set ([url h ociURI, ociURI, version, namespace, kubeVersion, chart, registry, folder,
            kubeConfig, name, kubeconfigFilePath, valueFilePath, valuesFilePath, installName,
            username] @ overrides) \<longrightarrow>
      (\<forall>c \<in> set (fst (ShowValues h ociURI version)). insecureSkipVerifyFlag \<notin> set (args c)) \<and>
      (\<forall>c \<in> set (fst (ListCharts h kubeconfigFilePath)). insecureSkipVerifyFlag \<notin> set (args c)) \<and>
      (\<forall>c \<in> set (fst (RegistryLogin h registry username password)).
         insecureSkipVerifyFlag \<notin> set (args c)) \<and>
      (\<not> insecure h \<longrightarrow>
         (\<forall>c \<in> set (fst (Template h marshal ociURI version namespace vals kubeVersion)).
            insecureSkipVerifyFlag \<notin> set (args c)) \<and>
         (\<forall>c \<in> set (fst (PullChart h ociURI version)). insecureSkipVerifyFlag \<notin> set (args c)) \<and>
         (\<forall>c \<in> set (fst (PushChart h chart registry)). insecureSkipVerifyFlag \<notin> set (args c)) \<and>
         (\<forall>c \<in> set (fst (SaveChart h ociURI version folder)).
            insecureSkipVerifyFlag \<notin> set (args c)) \<and>
         (\<forall>c \<in> set (fst (InstallChartFromName h ociURI kubeConfig name version)).
            insecureSkipVerifyFlag \<notin> set (args c)) \<and>
         (\<forall>c \<in> set (fst (InstallChart h chart ociURI version kubeconfigFilePath namespace
                             valueFilePath skipCRDs overrides)).
            insecureSkipVerifyFlag \<notin> set (args c)) \<and>
         (\<forall>c \<in> set (fst (InstallChartWithValuesFile h chart ociURI version kubeconfigFilePath
                             valuesFilePath)).
            insecureSkipVerifyFlag \<notin> set (args c)) \<and>
         (\<forall>c \<in> set (fst (Delete h kubeconfigFilePath installName namespace)).
            insecureSkipVerifyFlag \<notin> set (args c))) \<and>
      (\<not> insecure (applyOpts opts h) \<longrightarrow>
         (\<forall>c \<in> set (fst (snd (UpgradeChartWithValuesFile h chart ociURI version
                                  kubeconfigFilePath valuesFilePath opts))).
            insecureSkipVerifyFlag \<notin> set (args c))))"
  by (intro conjI impI)
     (erule flag_last_when_insecure flag_in_Upgrade(1) flag_never_added
      | (erule flag_in_Template_when_insecure, rule assms)
      | (erule (1) flag_absent_when_secure(1), rule assms)
      | erule (1) flag_absent_when_secure(2-) flag_in_Upgrade(2))+

text \<open>
  The theorem at an instance constructed with WithInsecure, at one constructed with no
  options, and at an upgrade that is given the option WithInsecure.
\<close>

theorem insecure_flag_placement_witness:
  "marshalling (Inr ''a: 1'') () = Inr ''a: 1'' \<and>
   insecure (NewHelm (succeeding []) [WithInsecure]) \<and>
   map (\<lambda>c. last (args c))
     (fst (PullChart (NewHelm (succeeding []) [WithInsecure]) ''registry.example/x'' ''1.0''))
     = [''--insecure-skip-tls-verify''] \<and>
   map args
     (fst (Template (NewHelm (succeeding []) [WithInsecure]) (marshalling (Inr ''a: 1''))
             ''registry.example/x'' ''1.0'' ''ns'' () ''1.27''))
     = [[''template'', ''registry.example/x'', ''--version'', ''1.0'', ''--namespace'', ''ns'',
         ''--kube-version'', ''1.27'', ''--insecure-skip-tls-verify'', ''-f'', ''-'']] \<and>
   insecure (applyOpts [WithInsecure] (NewHelm (succeeding []) [])) \<and>
   map (\<lambda>c. last (args c))
     (fst (snd (UpgradeChartWithValuesFile (NewHelm (succeeding []) []) ''r''
                  ''registry.example/x'' ''1.0'' ''kube.config'' ''values.yaml'' [WithInsecure])))
     = [''--insecure-skip-tls-verify''] \<and>
   insecureSkipVerifyFlag \<notin>
     set ([url (NewHelm (succeeding []) []) ''registry.example/x'', ''registry.example/x'',
           ''1.0'', ''ns'', ''1.27'', ''r'', ''registry.example'', ''charts'', ''kube.config'',
           ''r'', ''kube.config'', ''values.yaml'', ''values.yaml'', ''r'', ''admin'']
          @ [''a=b'']) \<and>
   \<not> insecure (NewHelm (succeeding []) []) \<and>
   insecureSkipVerifyFlag \<notin> set (concat (map args
      (fst (InstallChart (NewHelm (succeeding []) []) ''r'' ''registry.example/x'' ''1.0''
              ''kube.config'' ''ns'' ''values.yaml'' False [''a=b''])))) \<and>
   insecureSkipVerifyFlag \<notin> set (concat (map args
      (fst (ShowValues (NewHelm (succeeding []) []) ''registry.example/x'' ''1.0'')))) \<and>
   \<not> insecure (applyOpts [] (NewHelm (succeeding []) [])) \<and>
   insecureSkipVerifyFlag \<notin> set (concat (map args
      (fst (snd (UpgradeChartWithValuesFile (NewHelm (succeeding []) []) ''r''
                   ''registry.example/x'' ''1.0'' ''kube.config'' ''values.yaml'' [])))))"
  using insecure_flag_placement [where marshal = "marshalling (Inr ''a: 1'')" and vals = "()"
          and valuesYaml = "''a: 1''" and h = "NewHelm (succeeding []) [WithInsecure]"
          and ociURI = "''registry.example/x''" and version = "''1.0''" and namespace = "''ns''"
          and kubeVersion = "''1.27''" and opts = "[]"]
        insecure_flag_placement [where marshal = "marshalling (Inr ''a: 1'')" and vals = "()"
          and valuesYaml = "''a: 1''" and h = "NewHelm (succeeding []) []"
          and ociURI = "''registry.example/x''" and version = "''1.0''" and namespace = "''ns''"
          and kubeVersion = "''1.27''" and chart = "''r''" and registry = "''registry.example''"
          and folder = "''charts''" and kubeConfig = "''kube.config''" and name = "''r''"
          and kubeconfigFilePath = "''kube.config''" and valueFilePath = "''values.yaml''"
          and valuesFilePath = "''values.yaml''" and installName = "''r''"
          and username = "''admin''" and overrides = "[''a=b'']" and skipCRDs = False
          and opts = "[WithInsecure]"]
        insecure_flag_placement [where marshal = "marshalling (Inr ''a: 1'')" and vals = "()"
          and valuesYaml = "''a: 1''" and h = "NewHelm (succeeding []) []"
          and ociURI = "''registry.example/x''" and version = "''1.0''" and namespace = "''ns''"
          and kubeVersion = "''1.27''" and chart = "''r''" and registry = "''registry.example''"
          and folder = "''charts''" and kubeConfig = "''kube.config''" and name = "''r''"
          and kubeconfigFilePath = "''kube.config''" and valueFilePath = "''values.yaml''"
          and valuesFilePath = "''values.yaml''" and installName = "''r''"
          and username = "''admin''" and overrides = "[''a=b'']" and skipCRDs = False
          and opts = "[]"]
  by (simp add: marshalling_def NewHelm_def WithInsecure_def url_def ReplaceRegistry_def
        insecureSkipVerifyFlag_def)

text \<open>
  C2 as stated fails on an instance constructed with WithInsecure: the argument list of
  Template ends with \<^verbatim>\<open>-f -\<close>, the lists of ShowValues and ListCharts do not contain the
  flag, and the list of RegistryLogin ends with \<^verbatim>\<open>--insecure\<close>.
\<close>

theorem insecure_flag_not_final_or_absent:
  "insecure (NewHelm (succeeding []) [WithInsecure]) \<and>
   map args
     (fst (Template (NewHelm (succeeding []) [WithInsecure]) (marshalling (Inr ''a: 1''))
             ''registry.example/x'' ''1.0'' ''ns'' () ''1.27''))
     = [[''template'', ''registry.example/x'', ''--version'', ''1.0'', ''--namespace'', ''ns'',
         ''--kube-version'', ''1.27'', ''--insecure-skip-tls-verify'', ''-f'', ''-'']] \<and>
   map args (fst (ShowValues (NewHelm (succeeding []) [WithInsecure]) ''registry.example/x'' ''1.0''))
     = [[''show'', ''values'', ''registry.example/x'', ''--version'', ''1.0'']] \<and>
   map args (fst (ListCharts (NewHelm (succeeding []) [WithInsecure]) ''kube.config''))
     = [[''list'', ''-q'', ''--kubeconfig'', ''kube.config'']] \<and>
   map args
     (fst (RegistryLogin (NewHelm (succeeding []) [WithInsecure]) ''registry.example'' ''admin''
             ''s3cret''))
     = [[''registry'', ''login'', ''registry.example'', ''--username'', ''admin'',
         ''--password-stdin'', ''--insecure'']] \<and>
   last (args (hd (fst (Template (NewHelm (succeeding []) [WithInsecure])
                          (marshalling (Inr ''a: 1'')) ''registry.example/x'' ''1.0'' ''ns'' ()
                          ''1.27''))))
     \<noteq> insecureSkipVerifyFlag \<and>
   insecureSkipVerifyFlag
     \<notin> set (args (hd (fst (ShowValues (NewHelm (succeeding []) [WithInsecure])
                               ''registry.example/x'' ''1.0''))))"
  by (simp add: Template_calls ShowValues_calls ListCharts_calls RegistryLogin_calls
        marshalling_def NewHelm_def WithInsecure_def url_def ReplaceRegistry_def
        addInsecureFlagIfProvided_def insecureSkipVerifyFlag_def)

text \<open>
  C3. An instance constructed with no options, asked to install release \<open>r\<close> from chart
  \<open>oci://x\<close>, version \<open>1.0\<close>, into namespace \<open>ns\<close>, with no kube-config path, no values
  file, CRDs not skipped and no inline overrides, issues exactly one command, whose argument
  list is \<open>upgrade --install r oci://x --version 1.0 --create-namespace --namespace ns\<close>;
  the insecure flag is not appended.
\<close>

theorem InstallChart_default_scenario:
  "map args (fst (InstallChart (NewHelm exe []) ''r'' ''oci://x'' ''1.0'' '''' ''ns'' '''' False []))
     = [[''upgrade'', ''--install'', ''r'', ''oci://x'', ''--version'', ''1.0'',
         ''--create-namespace'', ''--namespace'', ''ns'']]"
  by (simp add: InstallChart_calls NewHelm_def addInsecureFlagIfProvided_def)

text \<open>
  C4. When the serialization of the values payload fails, Template hands no command to the
  runner and returns an error, built from the serialization error, and no manifest bytes.
\<close>

theorem Template_serialization_failure:
  assumes "marshal vals = Inl err"
  shows "Template h marshal ociURI version namespace vals kubeVersion =
           ([], Inl (ErrorString (''failed marshalling values for helm template: '' @ ErrorMsg err)))"
  using assms by (simp add: Template_def)

text \<open>
  The theorem at a serializer that fails with \<^verbatim>\<open>unsupported type\<close>, on an instance whose
  runner would have succeeded.
\<close>

theorem Template_serialization_failure_witness:
  "marshalling (Inl (ErrorString ''unsupported type'')) () = Inl (ErrorString ''unsupported type'') \<and>
   Template (NewHelm (succeeding ''manifest'') []) (marshalling (Inl (ErrorString ''unsupported type'')))
       ''registry.example/x'' ''1.0'' ''ns'' () ''1.27'' =
     ([], Inl (ErrorString ''failed marshalling values for helm template: unsupported type''))"
  using Template_serialization_failure [where marshal = "marshalling (Inl (ErrorString ''unsupported type''))"
          and vals = "()" and err = "ErrorString ''unsupported type''"
          and h = "NewHelm (succeeding ''manifest'') []" and ociURI = "''registry.example/x''"
          and version = "''1.0''" and namespace = "''ns''" and kubeVersion = "''1.27''"]
  by (simp add: marshalling_def)

text \<open>
  C5. The argument list that RegistryLogin builds is the same for any two passwords, so the
  password is not used to build it; the standard-input payload of the command is the
  password. A password that is not itself the registry, the user name or one of the fixed
  tokens is therefore not a token of the argument list.
\<close>

theorem RegistryLogin_password_only_on_stdin:
  "map args (fst (RegistryLogin h registry username password)) =
     map args (fst (RegistryLogin h registry username password')) \<and>
   map stdIn (fst (RegistryLogin h registry username password)) = [Some password] \<and>
   (password \<notin> set [registry, username, ''registry'', ''login'', ''--username'',
                      ''--password-stdin'', ''--insecure''] \<longrightarrow>
      (\<forall>c \<in> set (fst (RegistryLogin h registry username password)). password \<notin> set (args c)))"
  by (simp add: RegistryLogin_calls)

text \<open>
  The theorem at registry \<^verbatim>\<open>registry.example\<close>, user \<^verbatim>\<open>admin\<close> and password
  \<^verbatim>\<open>s3cret\<close>, on an insecure instance.
\<close>

theorem RegistryLogin_password_only_on_stdin_witness:
  "''s3cret'' \<notin> set [''registry.example'', ''admin'', ''registry'', ''login'', ''--username'',
                      ''--password-stdin'', ''--insecure''] \<and>
   ''s3cret'' \<notin> set (concat (map args
                      (fst (RegistryLogin (NewHelm (succeeding []) [WithInsecure])
                              ''registry.example'' ''admin'' ''s3cret'')))) \<and>
   map stdIn (fst (RegistryLogin (NewHelm (succeeding []) [WithInsecure]) ''registry.example''
                      ''admin'' ''s3cret'')) = [Some ''s3cret'']"
  using RegistryLogin_password_only_on_stdin [of "NewHelm (succeeding []) [WithInsecure]"
          "''registry.example''" "''admin''" "''s3cret''" "''s3cret''"]
  by simp

text \<open>
  C6. When the runner succeeds with output \<open>out\<close>, ListCharts returns the segments of
  \<open>out\<close> between newlines, in order, without the empty ones; when the runner fails,
  ListCharts returns the error and no list. For the output \<^verbatim>\<open>a\nb\n\nc\n\<close> the result is
  the three names a, b, c.
\<close>

theorem ListCharts_splits_lines:
  "(executable h (hd (fst (ListCharts h kubeconfigFilePath))) = (out, None) \<longrightarrow>
      snd (ListCharts h kubeconfigFilePath) = Inr (nonEmptyLines out)) \<and>
   (executable h (hd (fst (ListCharts h kubeconfigFilePath))) = (out, Some e) \<longrightarrow>
      snd (ListCharts h kubeconfigFilePath) = Inl e) \<and>
   snd (ListCharts (h\<lparr>executable := succeeding (''a'' @ [CHR 0x0A] @ ''b'' @ [CHR 0x0A, CHR 0x0A] @ ''c'' @ [CHR 0x0A])\<rparr>) kubeconfigFilePath)
     = Inr [''a'', ''b'', ''c'']"
  by (simp add: ListCharts_calls)
     (simp add: ListCharts_def Run_def WithEnvVars_def Command_def Let_def split_beta
        FieldsFunc_newline succeeding_def nonEmptyLines_def)

text \<open>
  The theorem at a runner that prints \<^verbatim>\<open>a\nb\n\nc\n\<close> and at one that fails.
\<close>

theorem ListCharts_splits_lines_witness:
  "executable (NewHelm (succeeding (''a'' @ [CHR 0x0A] @ ''b'' @ [CHR 0x0A, CHR 0x0A] @ ''c'' @ [CHR 0x0A])) [])
     (hd (fst (ListCharts
                 (NewHelm (succeeding (''a'' @ [CHR 0x0A] @ ''b'' @ [CHR 0x0A, CHR 0x0A] @ ''c'' @ [CHR 0x0A])) [])
                 ''kube.config'')))
     = (''a'' @ [CHR 0x0A] @ ''b'' @ [CHR 0x0A, CHR 0x0A] @ ''c'' @ [CHR 0x0A], None) \<and>
   snd (ListCharts
          (NewHelm (succeeding (''a'' @ [CHR 0x0A] @ ''b'' @ [CHR 0x0A, CHR 0x0A] @ ''c'' @ [CHR 0x0A])) [])
          ''kube.config'')
     = Inr [''a'', ''b'', ''c''] \<and>
   executable (NewHelm (failing (ErrorString ''exit status 1'')) [])
     (hd (fst (ListCharts (NewHelm (failing (ErrorString ''exit status 1'')) []) ''kube.config'')))
     = ([], Some (ErrorString ''exit status 1'')) \<and>
   snd (ListCharts (NewHelm (failing (ErrorString ''exit status 1'')) []) ''kube.config'')
     = Inl (ErrorString ''exit status 1'')"
  using ListCharts_splits_lines
          [of "NewHelm (succeeding (''a'' @ [CHR 0x0A] @ ''b'' @ [CHR 0x0A, CHR 0x0A] @ ''c'' @ [CHR 0x0A])) []"
              "''kube.config''" "''a'' @ [CHR 0x0A] @ ''b'' @ [CHR 0x0A, CHR 0x0A] @ ''c'' @ [CHR 0x0A]"]
        ListCharts_splits_lines
          [of "NewHelm (failing (ErrorString ''exit status 1'')) []" "''kube.config''" "[]"
              "ErrorString ''exit status 1''"]
  by (simp add: NewHelm_def succeeding_def failing_def nonEmptyLines_def)

text \<open>
  C7. When the runner fails on the command that Delete issues, with an error \<open>e\<close> of
  message \<open>M\<close>, Delete returns an error whose message is \<^verbatim>\<open>deleting helm installation \<close>
  followed by \<open>M\<close> and which wraps \<open>e\<close>; when the runner succeeds, Delete returns no
  error.
\<close>

theorem Delete_wraps_failure:
  "(snd (executable h (hd (fst (Delete h kubeconfigFilePath installName namespace)))) = Some e \<longrightarrow>
      (\<exists>err. snd (Delete h kubeconfigFilePath installName namespace) = Some err \<and>
             ErrorMsg err = ''deleting helm installation '' @ ErrorMsg e \<and>
             Unwrap err = Some e)) \<and>
   (snd (executable h (hd (fst (Delete h kubeconfigFilePath installName namespace)))) = None \<longrightarrow>
      snd (Delete h kubeconfigFilePath installName namespace) = None)"
  by (simp add: Delete_calls) (simp add: Delete_def Run_def WithEnvVars_def Command_def Let_def split_beta)

text \<open>
  The theorem at a runner that fails with \<^verbatim>\<open>exit status 1\<close> and at one that succeeds.
\<close>

theorem Delete_wraps_failure_witness:
  "snd (executable (NewHelm (failing (ErrorString ''exit status 1'')) [])
          (hd (fst (Delete (NewHelm (failing (ErrorString ''exit status 1'')) [])
                      ''kube.config'' ''r'' ''ns''))))
     = Some (ErrorString ''exit status 1'') \<and>
   map_option ErrorMsg
     (snd (Delete (NewHelm (failing (ErrorString ''exit status 1'')) []) ''kube.config'' ''r'' ''ns''))
     = Some ''deleting helm installation exit status 1'' \<and>
   snd (executable (NewHelm (succeeding []) [])
          (hd (fst (Delete (NewHelm (succeeding []) []) ''kube.config'' ''r'' ''ns'')))) = None \<and>
   snd (Delete (NewHelm (succeeding []) []) ''kube.config'' ''r'' ''ns'') = None"
  using Delete_wraps_failure [of "NewHelm (failing (ErrorString ''exit status 1'')) []"
          "''kube.config''" "''r''" "''ns''" "ErrorString ''exit status 1''"]
        Delete_wraps_failure [of "NewHelm (succeeding []) []"
          "''kube.config''" "''r''" "''ns''"]
  by (auto simp add: NewHelm_def failing_def succeeding_def)

text \<open>
  C8. UpgradeChartWithValuesFile applies the options it is given to the receiving instance:
  the instance after the call is the receiver with every option of the list applied, in
  order (the left fold of the list; an option appended to the list is applied to what the
  others left), and the command of this call is built from that instance, its insecure flag
  and its environment. Lists of several options show all their effects, in either order.
  Whenever WithInsecure is among the options and the options after it do not clear the flag
  (none of the package does), the call appends the flag, the instance is insecure
  afterwards, and a later PullChart on it appends the flag too. Later operations are built
  from the mutated configuration, and a later upgrade without options leaves it as it is.
\<close>

theorem UpgradeChartWithValuesFile_mutates_receiver:
  "fst (UpgradeChartWithValuesFile h chart ociURI version kubeconfigFilePath valuesFilePath opts)
     = foldl (\<lambda>h' opt. opt h') h opts \<and>
   fst (snd (UpgradeChartWithValuesFile h chart ociURI version kubeconfigFilePath valuesFilePath opts))
     = [\<lparr>args = addInsecureFlagIfProvided (foldl (\<lambda>h' opt. opt h') h opts)
                 [''upgrade'', chart, ociURI, ''--version'', version, ''--values'', valuesFilePath,
                  ''--kubeconfig'', kubeconfigFilePath, ''--wait''],
        stdIn = None, envVars = env (foldl (\<lambda>h' opt. opt h') h opts)\<rparr>] \<and>
   fst (UpgradeChartWithValuesFile h chart ociURI version kubeconfigFilePath valuesFilePath
          (opts @ [opt]))
     = opt (fst (UpgradeChartWithValuesFile h chart ociURI version kubeconfigFilePath
                   valuesFilePath opts)) \<and>
   fst (UpgradeChartWithValuesFile h chart ociURI version kubeconfigFilePath valuesFilePath
          [WithEnv vars, WithRegistryMirror mirror, WithInsecure])
     = h\<lparr>registryMirror := mirror, env := env h ++ vars, insecure := True\<rparr> \<and>
   fst (UpgradeChartWithValuesFile h chart ociURI version kubeconfigFilePath valuesFilePath
          [WithInsecure, WithRegistryMirror mirror, WithEnv vars])
     = h\<lparr>registryMirror := mirror, env := env h ++ vars, insecure := True\<rparr> \<and>
   fst (UpgradeChartWithValuesFile h chart ociURI version kubeconfigFilePath valuesFilePath
          [WithEnv vars, WithEnv vars'])
     = h\<lparr>env := env h ++ vars ++ vars'\<rparr> \<and>
   fst (snd (UpgradeChartWithValuesFile h chart ociURI version kubeconfigFilePath valuesFilePath
               [WithEnv vars, WithInsecure]))
     = [\<lparr>args = [''upgrade'', chart, ociURI, ''--version'', version, ''--values'',
                 valuesFilePath, ''--kubeconfig'', kubeconfigFilePath, ''--wait'',
                 insecureSkipVerifyFlag],
        stdIn = None, envVars = env h ++ vars\<rparr>] \<and>
   fst (snd (UpgradeChartWithValuesFile h chart ociURI version kubeconfigFilePath valuesFilePath
               [WithInsecure, WithEnv vars]))
     = [\<lparr>args = [''upgrade'', chart, ociURI, ''--version'', version, ''--values'',
                 valuesFilePath, ''--kubeconfig'', kubeconfigFilePath, ''--wait'',
                 insecureSkipVerifyFlag],
        stdIn = None, envVars = env h ++ vars\<rparr>] \<and>
   (opts = pre @ [WithInsecure] @ post \<and>
    (\<forall>opt' \<in> set post. \<forall>h'. insecure h' \<longrightarrow> insecure (opt' h')) \<longrightarrow>
      insecure (fst (UpgradeChartWithValuesFile h chart ociURI version kubeconfigFilePath
                       valuesFilePath opts)) \<and>
      map (\<lambda>c. last (args c))
        (fst (snd (UpgradeChartWithValuesFile h chart ociURI version kubeconfigFilePath
                     valuesFilePath opts))) = [insecureSkipVerifyFlag] \<and>
      map (\<lambda>c. last (args c))
        (fst (PullChart
                (fst (UpgradeChartWithValuesFile h chart ociURI version kubeconfigFilePath
                        valuesFilePath opts))
                ociURI' version')) = [insecureSkipVerifyFlag]) \<and>
   insecure (fst (UpgradeChartWithValuesFile h chart ociURI version kubeconfigFilePath
                    valuesFilePath [WithInsecure])) \<and>
   map args (fst (snd (UpgradeChartWithValuesFile h chart ociURI version kubeconfigFilePath
                         valuesFilePath [WithInsecure])))
     = [[''upgrade'', chart, ociURI, ''--version'', version, ''--values'', valuesFilePath,
         ''--kubeconfig'', kubeconfigFilePath, ''--wait'', insecureSkipVerifyFlag]] \<and>
   map (\<lambda>c. last (args c))
     (fst (PullChart
             (fst (UpgradeChartWithValuesFile h chart ociURI version kubeconfigFilePath
                     valuesFilePath [WithInsecure]))
             ociURI' version'))
     = [insecureSkipVerifyFlag] \<and>
   map (\<lambda>c. last (args c))
     (fst (snd (UpgradeChartWithValuesFile
                  (fst (UpgradeChartWithValuesFile h chart ociURI version kubeconfigFilePath
                          valuesFilePath [WithInsecure]))
                  chart' ociURI' version' kubeconfigFilePath' valuesFilePath' [])))
     = [insecureSkipVerifyFlag] \<and>
   fst (UpgradeChartWithValuesFile
          (fst (UpgradeChartWithValuesFile h chart ociURI version kubeconfigFilePath
                  valuesFilePath opts))
          chart' ociURI' version' kubeconfigFilePath' valuesFilePath' [])
     = foldl (\<lambda>h' opt. opt h') h opts \<and>
   fst (PullChart
          (fst (UpgradeChartWithValuesFile h chart ociURI version kubeconfigFilePath
                  valuesFilePath opts))
          ociURI' version')
     = [\<lparr>args = addInsecureFlagIfProvided (foldl (\<lambda>h' opt. opt h') h opts)
                 [''pull'', url (foldl (\<lambda>h' opt. opt h') h opts) ociURI', ''--version'', version'],
        stdIn = None, envVars = env (foldl (\<lambda>h' opt. opt h') h opts)\<rparr>]"
proof -
  have general:
    "opts = pre @ [WithInsecure] @ post \<and>
     (\<forall>opt' \<in> set post. \<forall>h'. insecure h' \<longrightarrow> insecure (opt' h')) \<longrightarrow>
      insecure (fst (UpgradeChartWithValuesFile h chart ociURI version kubeconfigFilePath
                       valuesFilePath opts)) \<and>
      map (\<lambda>c. last (args c))
        (fst (snd (UpgradeChartWithValuesFile h chart ociURI version kubeconfigFilePath
                     valuesFilePath opts))) = [insecureSkipVerifyFlag] \<and>
      map (\<lambda>c. last (args c))
        (fst (PullChart
                (fst (UpgradeChartWithValuesFile h chart ociURI version kubeconfigFilePath
                        valuesFilePath opts))
                ociURI' version')) = [insecureSkipVerifyFlag]"
  proof (intro impI, elim conjE)
    assume "opts = pre @ [WithInsecure] @ post"
      and "\<forall>opt' \<in> set post. \<forall>h'. insecure h' \<longrightarrow> insecure (opt' h')"
    then have "insecure (applyOpts opts h)"
      by (rule applyOpts_WithInsecure_somewhere)
    then show "insecure (fst (UpgradeChartWithValuesFile h chart ociURI version kubeconfigFilePath
                       valuesFilePath opts)) \<and>
      map (\<lambda>c. last (args c))
        (fst (snd (UpgradeChartWithValuesFile h chart ociURI version kubeconfigFilePath
                     valuesFilePath opts))) = [insecureSkipVerifyFlag] \<and>
      map (\<lambda>c. last (args c))
        (fst (PullChart
                (fst (UpgradeChartWithValuesFile h chart ociURI version kubeconfigFilePath
                        valuesFilePath opts))
                ociURI' version')) = [insecureSkipVerifyFlag]"
      by (simp add: UpgradeChartWithValuesFile_calls UpgradeChartWithValuesFile_instance
            PullChart_calls last_addInsecureFlagIfProvided)
  qed
  have rest:
    "fst (UpgradeChartWithValuesFile h chart ociURI version kubeconfigFilePath valuesFilePath opts)
       = foldl (\<lambda>h' opt. opt h') h opts"
    "fst (snd (UpgradeChartWithValuesFile h chart ociURI version kubeconfigFilePath valuesFilePath opts))
       = [\<lparr>args = addInsecureFlagIfProvided (foldl (\<lambda>h' opt. opt h') h opts)
                 [''upgrade'', chart, ociURI, ''--version'', version, ''--values'', valuesFilePath,
                  ''--kubeconfig'', kubeconfigFilePath, ''--wait''],
        stdIn = None, envVars = env (foldl (\<lambda>h' opt. opt h') h opts)\<rparr>]"
    "fst (UpgradeChartWithValuesFile h chart ociURI version kubeconfigFilePath valuesFilePath
          (opts @ [opt]))
     = opt (fst (UpgradeChartWithValuesFile h chart ociURI version kubeconfigFilePath
                   valuesFilePath opts))"
    "fst (UpgradeChartWithValuesFile
          (fst (UpgradeChartWithValuesFile h chart ociURI version kubeconfigFilePath
                  valuesFilePath opts))
          chart' ociURI' version' kubeconfigFilePath' valuesFilePath' [])
     = foldl (\<lambda>h' opt. opt h') h opts"
    "fst (PullChart
          (fst (UpgradeChartWithValuesFile h chart ociURI version kubeconfigFilePath
                  valuesFilePath opts))
          ociURI' version')
     = [\<lparr>args = addInsecureFlagIfProvided (foldl (\<lambda>h' opt. opt h') h opts)
                 [''pull'', url (foldl (\<lambda>h' opt. opt h') h opts) ociURI', ''--version'', version'],
        stdIn = None, envVars = env (foldl (\<lambda>h' opt. opt h') h opts)\<rparr>]"
    by (simp_all add: UpgradeChartWithValuesFile_calls UpgradeChartWithValuesFile_instance
          PullChart_calls applyOpts_foldl)
  have concrete:
    "fst (UpgradeChartWithValuesFile h chart ociURI version kubeconfigFilePath valuesFilePath
          [WithEnv vars, WithRegistryMirror mirror, WithInsecure])
     = h\<lparr>registryMirror := mirror, env := env h ++ vars, insecure := True\<rparr>"
    "fst (UpgradeChartWithValuesFile h chart ociURI version kubeconfigFilePath valuesFilePath
          [WithInsecure, WithRegistryMirror mirror, WithEnv vars])
     = h\<lparr>registryMirror := mirror, env := env h ++ vars, insecure := True\<rparr>"
    "fst (UpgradeChartWithValuesFile h chart ociURI version kubeconfigFilePath valuesFilePath
          [WithEnv vars, WithEnv vars'])
     = h\<lparr>env := env h ++ vars ++ vars'\<rparr>"
    "fst (snd (UpgradeChartWithValuesFile h chart ociURI version kubeconfigFilePath valuesFilePath
               [WithEnv vars, WithInsecure]))
     = [\<lparr>args = [''upgrade'', chart, ociURI, ''--version'', version, ''--values'',
                 valuesFilePath, ''--kubeconfig'', kubeconfigFilePath, ''--wait'',
                 insecureSkipVerifyFlag],
        stdIn = None, envVars = env h ++ vars\<rparr>]"
    "fst (snd (UpgradeChartWithValuesFile h chart ociURI version kubeconfigFilePath valuesFilePath
               [WithInsecure, WithEnv vars]))
     = [\<lparr>args = [''upgrade'', chart, ociURI, ''--version'', version, ''--values'',
                 valuesFilePath, ''--kubeconfig'', kubeconfigFilePath, ''--wait'',
                 insecureSkipVerifyFlag],
        stdIn = None, envVars = env h ++ vars\<rparr>]"
    by (simp_all add: UpgradeChartWithValuesFile_calls UpgradeChartWithValuesFile_instance
          WithEnv_def WithRegistryMirror_def WithInsecure_def addInsecureFlagIfProvided_def)
  have single:
    "insecure (fst (UpgradeChartWithValuesFile h chart ociURI version kubeconfigFilePath
                    valuesFilePath [WithInsecure]))"
    "map args (fst (snd (UpgradeChartWithValuesFile h chart ociURI version kubeconfigFilePath
                         valuesFilePath [WithInsecure])))
     = [[''upgrade'', chart, ociURI, ''--version'', version, ''--values'', valuesFilePath,
         ''--kubeconfig'', kubeconfigFilePath, ''--wait'', insecureSkipVerifyFlag]]"
    "map (\<lambda>c. last (args c))
     (fst (PullChart
             (fst (UpgradeChartWithValuesFile h chart ociURI version kubeconfigFilePath
                     valuesFilePath [WithInsecure]))
             ociURI' version'))
     = [insecureSkipVerifyFlag]"
    "map (\<lambda>c. last (args c))
     (fst (snd (UpgradeChartWithValuesFile
                  (fst (UpgradeChartWithValuesFile h chart ociURI version kubeconfigFilePath
                          valuesFilePath [WithInsecure]))
                  chart' ociURI' version' kubeconfigFilePath' valuesFilePath' [])))
     = [insecureSkipVerifyFlag]"
    by (simp_all add: UpgradeChartWithValuesFile_calls UpgradeChartWithValuesFile_instance
          PullChart_calls WithInsecure_def addInsecureFlagIfProvided_def)
  show ?thesis
    by (intro conjI general rest concrete single)
qed

text \<open>
  The theorem at an instance constructed with no options and the option list
  WithEnv \<open>A = 1\<close>, WithInsecure, WithRegistryMirror \<^const>\<open>toMirror\<close>, WithEnv \<open>B = 2\<close>:
  the upgrade ends with the flag and passes both new variables, and a later PullChart
  is insecure and goes through the mirror.
\<close>

theorem UpgradeChartWithValuesFile_mutates_receiver_witness:
  "insecure
     (fst (UpgradeChartWithValuesFile (NewHelm (succeeding []) []) ''r'' ''registry.example/x''
             ''1.0'' ''kube.config'' ''values.yaml''
             ([WithEnv [''A'' \<mapsto> ''1'']] @ [WithInsecure]
              @ [WithRegistryMirror (Some toMirror), WithEnv [''B'' \<mapsto> ''2'']]))) \<and>
   map args
     (fst (snd (UpgradeChartWithValuesFile (NewHelm (succeeding []) []) ''r''
                  ''registry.example/x'' ''1.0'' ''kube.config'' ''values.yaml''
                  ([WithEnv [''A'' \<mapsto> ''1'']] @ [WithInsecure]
                   @ [WithRegistryMirror (Some toMirror), WithEnv [''B'' \<mapsto> ''2'']]))))
     = [[''upgrade'', ''r'', ''registry.example/x'', ''--version'', ''1.0'', ''--values'',
         ''values.yaml'', ''--kubeconfig'', ''kube.config'', ''--wait'',
         ''--insecure-skip-tls-verify'']] \<and>
   map envVars
     (fst (snd (UpgradeChartWithValuesFile (NewHelm (succeeding []) []) ''r''
                  ''registry.example/x'' ''1.0'' ''kube.config'' ''values.yaml''
                  ([WithEnv [''A'' \<mapsto> ''1'']] @ [WithInsecure]
                   @ [WithRegistryMirror (Some toMirror), WithEnv [''B'' \<mapsto> ''2'']]))))
     = [[''HELM_EXPERIMENTAL_OCI'' \<mapsto> ''1'', ''A'' \<mapsto> ''1'', ''B'' \<mapsto> ''2'']] \<and>
   map args
     (fst (PullChart
             (fst (UpgradeChartWithValuesFile (NewHelm (succeeding []) []) ''r''
                     ''registry.example/x'' ''1.0'' ''kube.config'' ''values.yaml''
                     ([WithEnv [''A'' \<mapsto> ''1'']] @ [WithInsecure]
                      @ [WithRegistryMirror (Some toMirror), WithEnv [''B'' \<mapsto> ''2'']])))
             ''registry.example/y'' ''2.0''))
     = [[''pull'', ''mirror.local/registry.example/y'', ''--version'', ''2.0'',
         ''--insecure-skip-tls-verify'']]"
  using UpgradeChartWithValuesFile_mutates_receiver
          [where h = "NewHelm (succeeding []) []" and chart = "''r''"
             and ociURI = "''registry.example/x''" and version = "''1.0''"
             and kubeconfigFilePath = "''kube.config''" and valuesFilePath = "''values.yaml''"
             and opts = "[WithEnv [''A'' \<mapsto> ''1'']] @ [WithInsecure]
                         @ [WithRegistryMirror (Some toMirror), WithEnv [''B'' \<mapsto> ''2'']]"
             and pre = "[WithEnv [''A'' \<mapsto> ''1'']]"
             and post = "[WithRegistryMirror (Some toMirror), WithEnv [''B'' \<mapsto> ''2'']]"
             and ociURI' = "''registry.example/y''" and version' = "''2.0''"
             and opt = WithInsecure and vars = "Map.empty" and vars' = "Map.empty"
             and mirror = None and chart' = "''r''" and kubeconfigFilePath' = "''kube.config''"
             and valuesFilePath' = "''values.yaml''"]
  by (simp add: NewHelm_def WithEnv_def WithRegistryMirror_def WithInsecure_def
        addInsecureFlagIfProvided_def insecureSkipVerifyFlag_def url_def ReplaceRegistry_def
        toMirror_def PullChart_calls)

text \<open>
  C9. After any sequence of WithEnv options, applied by NewHelm to the default mapping or
  later to an instance, the keys of the environment mapping are the keys it had before
  (the default key \<^verbatim>\<open>HELM_EXPERIMENTAL_OCI\<close> for NewHelm) together with the keys of every
  applied map; a key has the value given by the last applied map that sets it, and its
  previous value when no applied map sets it. Every operation passes the environment mapping
  of the instance to the runner (UpgradeChartWithValuesFile that of the instance after its
  options are applied).
\<close>

theorem WithEnv_extends_environment:
  assumes "marshal vals = Inr valuesYaml"
  shows
  "dom (env (NewHelm exe (map WithEnv envs)))
     = {''HELM_EXPERIMENTAL_OCI''} \<union> (\<Union>m \<in> set envs. dom m) \<and>
   dom (env (applyOpts (map WithEnv envs) h)) = dom (env h) \<union> (\<Union>m \<in> set envs. dom m) \<and>
   (envs = before @ [m] @ after \<and> m k = Some v \<and> (\<forall>m' \<in> set after. m' k = None) \<longrightarrow>
      env (NewHelm exe (map WithEnv envs)) k = Some v \<and>
      env (applyOpts (map WithEnv envs) h) k = Some v) \<and>
   ((\<forall>m \<in> set envs. m k = None) \<longrightarrow>
      env (NewHelm exe (map WithEnv envs)) k = [''HELM_EXPERIMENTAL_OCI'' \<mapsto> ''1''] k \<and>
      env (applyOpts (map WithEnv envs) h) k = env h k) \<and>
   map envVars (fst (Template h marshal ociURI version namespace vals kubeVersion)) = [env h] \<and>
   map envVars (fst (PullChart h ociURI version)) = [env h] \<and>
   map envVars (fst (ShowValues h ociURI version)) = [env h] \<and>
   map envVars (fst (PushChart h chart registry)) = [env h] \<and>
   map envVars (fst (RegistryLogin h registry username password)) = [env h] \<and>
   map envVars (fst (SaveChart h ociURI version folder)) = [env h] \<and>
   map envVars (fst (InstallChartFromName h ociURI kubeConfig name version)) = [env h] \<and>
   map envVars
     (fst (InstallChart h chart ociURI version kubeconfigFilePath namespace valueFilePath
             skipCRDs overrides)) = [env h] \<and>
   map envVars
     (fst (InstallChartWithValuesFile h chart ociURI version kubeconfigFilePath valuesFilePath))
     = [env h] \<and>
   map envVars (fst (Delete h kubeconfigFilePath installName namespace)) = [env h] \<and>
   map envVars (fst (ListCharts h kubeconfigFilePath)) = [env h] \<and>
   map envVars
     (fst (snd (UpgradeChartWithValuesFile h chart ociURI version kubeconfigFilePath
                  valuesFilePath opts))) = [env (applyOpts opts h)]"
proof -
  have doms:
    "dom (env (NewHelm exe (map WithEnv envs)))
       = {''HELM_EXPERIMENTAL_OCI''} \<union> (\<Union>m \<in> set envs. dom m)"
    "dom (env (applyOpts (map WithEnv envs) h)) = dom (env h) \<union> (\<Union>m \<in> set envs. dom m)"
    by (simp_all add: NewHelm_def env_applyOpts_WithEnv dom_foldl_map_add)
  have last_wins:
    "envs = before @ [m] @ after \<and> m k = Some v \<and> (\<forall>m' \<in> set after. m' k = None) \<longrightarrow>
      env (NewHelm exe (map WithEnv envs)) k = Some v \<and>
      env (applyOpts (map WithEnv envs) h) k = Some v"
  proof (intro impI, elim conjE)
    assume split: "envs = before @ [m] @ after"
      and set_here: "m k = Some v"
      and not_later: "\<forall>m' \<in> set after. m' k = None"
    have "foldl (++) m0 envs k = Some v" for m0
      unfolding split using set_here not_later by (rule foldl_map_add_last)
    then show "env (NewHelm exe (map WithEnv envs)) k = Some v \<and>
      env (applyOpts (map WithEnv envs) h) k = Some v"
      by (simp only: NewHelm_def env_applyOpts_WithEnv simp_thms)
  qed
  have unset:
    "(\<forall>m \<in> set envs. m k = None) \<longrightarrow>
      env (NewHelm exe (map WithEnv envs)) k = [''HELM_EXPERIMENTAL_OCI'' \<mapsto> ''1''] k \<and>
      env (applyOpts (map WithEnv envs) h) k = env h k"
  proof
    assume "\<forall>m \<in> set envs. m k = None"
    then have "foldl (++) m0 envs k = m0 k" for m0
      by (rule foldl_map_add_unset)
    then show "env (NewHelm exe (map WithEnv envs)) k = [''HELM_EXPERIMENTAL_OCI'' \<mapsto> ''1''] k \<and>
      env (applyOpts (map WithEnv envs) h) k = env h k"
      by (simp add: NewHelm_def env_applyOpts_WithEnv)
  qed
  have tmpl: "map envVars (fst (Template h marshal ociURI version namespace vals kubeVersion)) = [env h]"
    using assms by (simp add: Template_calls)
  show ?thesis
    using doms last_wins unset tmpl
    by (simp only: envVars_of_operations simp_thms)
qed

text \<open>
  The theorem at the maps \<open>A = 1\<close>, \<open>A = 2\<close>, \<open>B = 3\<close> applied in this order by NewHelm: \<open>A\<close>
  has the value 2, the default key keeps its value, and Template passes all three entries.
\<close>

theorem WithEnv_extends_environment_witness:
  "marshalling (Inr ''a: 1'') () = Inr ''a: 1'' \<and>
   [[''A'' \<mapsto> ''1''], [''A'' \<mapsto> ''2''], [''B'' \<mapsto> ''3'']] = [[''A'' \<mapsto> ''1'']] @ [[''A'' \<mapsto> ''2'']] @ [[''B'' \<mapsto> ''3'']] \<and>
   [''A'' \<mapsto> ''2''] ''A'' = Some ''2'' \<and>
   [''B'' \<mapsto> ''3''] ''A'' = None \<and>
   env (NewHelm (succeeding []) (map WithEnv [[''A'' \<mapsto> ''1''], [''A'' \<mapsto> ''2''], [''B'' \<mapsto> ''3'']])) ''A'' = Some ''2'' \<and>
   [''A'' \<mapsto> ''1''] ''HELM_EXPERIMENTAL_OCI'' = None \<and>
   [''A'' \<mapsto> ''2''] ''HELM_EXPERIMENTAL_OCI'' = None \<and>
   [''B'' \<mapsto> ''3''] ''HELM_EXPERIMENTAL_OCI'' = None \<and>
   env (NewHelm (succeeding []) (map WithEnv [[''A'' \<mapsto> ''1''], [''A'' \<mapsto> ''2''], [''B'' \<mapsto> ''3'']])) ''HELM_EXPERIMENTAL_OCI'' = Some ''1'' \<and>
   map envVars
     (fst (Template (NewHelm (succeeding []) (map WithEnv [[''A'' \<mapsto> ''1''], [''A'' \<mapsto> ''2''], [''B'' \<mapsto> ''3'']])) (marshalling (Inr ''a: 1''))
             ''registry.example/x'' ''1.0'' ''ns'' () ''1.27''))
     = [[''HELM_EXPERIMENTAL_OCI'' \<mapsto> ''1'', ''A'' \<mapsto> ''2'', ''B'' \<mapsto> ''3'']]"
  using WithEnv_extends_environment [where marshal = "marshalling (Inr ''a: 1'')" and vals = "()"
          and valuesYaml = "''a: 1''" and exe = "succeeding []"
          and envs = "[[''A'' \<mapsto> ''1''], [''A'' \<mapsto> ''2''], [''B'' \<mapsto> ''3'']]"
          and before = "[[''A'' \<mapsto> ''1'']]" and m = "[''A'' \<mapsto> ''2'']"
          and after = "[[''B'' \<mapsto> ''3'']]" and k = "''A''" and v = "''2''"
          and h = "NewHelm (succeeding []) (map WithEnv [[''A'' \<mapsto> ''1''], [''A'' \<mapsto> ''2''], [''B'' \<mapsto> ''3'']])"
          and ociURI = "''registry.example/x''" and version = "''1.0''" and namespace = "''ns''"
          and kubeVersion = "''1.27''"]
        WithEnv_extends_environment [where marshal = "marshalling (Inr ''a: 1'')" and vals = "()"
          and valuesYaml = "''a: 1''" and exe = "succeeding []"
          and envs = "[[''A'' \<mapsto> ''1''], [''A'' \<mapsto> ''2''], [''B'' \<mapsto> ''3'']]"
          and k = "''HELM_EXPERIMENTAL_OCI''"]
  by (simp add: marshalling_def NewHelm_def WithEnv_def)

text \<open>
  C10. On an insecure instance RegistryLogin appends \<^verbatim>\<open>--insecure\<close> as the final
  argument, a token different from the flag \<^verbatim>\<open>--insecure-skip-tls-verify\<close> of the other
  operations; on an instance that is not insecure its argument list is the six base tokens,
  with nothing appended, so neither \<^verbatim>\<open>--insecure\<close> nor the flag is a token of it unless
  the caller passed one as registry or user name.
\<close>

theorem RegistryLogin_insecure_token:
  "(insecure h \<longrightarrow>
      map args (fst (RegistryLogin h registry username password)) =
        [[''registry'', ''login'', registry, ''--username'', username, ''--password-stdin'',
          ''--insecure'']] \<and>
      map (\<lambda>c. last (args c)) (fst (RegistryLogin h registry username password)) = [''--insecure'']) \<and>
   ''--insecure'' \<noteq> insecureSkipVerifyFlag \<and>
   (\<not> insecure h \<longrightarrow>
      map args (fst (RegistryLogin h registry username password)) =
        [[''registry'', ''login'', registry, ''--username'', username, ''--password-stdin'']] \<and>
      (''--insecure'' \<notin> set [registry, username] \<longrightarrow>
         ''--insecure'' \<notin> set (concat (map args (fst (RegistryLogin h registry username password)))))) \<and>
   (insecureSkipVerifyFlag \<notin> set [registry, username] \<longrightarrow>
      insecureSkipVerifyFlag
        \<notin> set (concat (map args (fst (RegistryLogin h registry username password)))))"
  by (simp add: RegistryLogin_calls insecureSkipVerifyFlag_def)

text \<open>
  The theorem at an instance constructed with WithInsecure and at one constructed with no
  options.
\<close>

theorem RegistryLogin_insecure_token_witness:
  "insecure (NewHelm (succeeding []) [WithInsecure]) \<and>
   map args (fst (RegistryLogin (NewHelm (succeeding []) [WithInsecure]) ''registry.example''
                    ''admin'' ''s3cret'')) =
     [[''registry'', ''login'', ''registry.example'', ''--username'', ''admin'',
       ''--password-stdin'', ''--insecure'']] \<and>
   \<not> insecure (NewHelm (succeeding []) []) \<and>
   map args (fst (RegistryLogin (NewHelm (succeeding []) []) ''registry.example''
                    ''admin'' ''s3cret'')) =
     [[''registry'', ''login'', ''registry.example'', ''--username'', ''admin'',
       ''--password-stdin'']] \<and>
   ''--insecure'' \<notin> set [''registry.example'', ''admin''] \<and>
   ''--insecure'' \<notin> set (concat (map args
      (fst (RegistryLogin (NewHelm (succeeding []) []) ''registry.example'' ''admin''
              ''s3cret'')))) \<and>
   insecureSkipVerifyFlag \<notin> set [''registry.example'', ''admin''] \<and>
   insecureSkipVerifyFlag \<notin> set (concat (map args
      (fst (RegistryLogin (NewHelm (succeeding []) []) ''registry.example'' ''admin''
              ''s3cret''))))"
  using RegistryLogin_insecure_token [of "NewHelm (succeeding []) [WithInsecure]"
          "''registry.example''" "''admin''" "''s3cret''"]
        RegistryLogin_insecure_token [of "NewHelm (succeeding []) []"
          "''registry.example''" "''admin''" "''s3cret''"]
  by (simp add: NewHelm_def WithInsecure_def insecureSkipVerifyFlag_def)

end
